theory Spec2Isabelle
  imports Main
begin

section \<open>Rugged::RemoteCollection (ext/rugged/rugged\_remote\_collection.c)\<close>

text \<open>
  The file is binding glue between Ruby and libgit2.  Its functions are embedded as
  state-passing functions: the state carries the world outside the binding (the
  repository's configuration, the Ruby heap) and the trace of the calls the binding
  makes into libgit2 and into the block it was given.  A Ruby exception is a value
  of type \<open>exn\<close>, returned on the left of a sum.
\<close>

subsection \<open>Values\<close>

text \<open>A \<open>git_repository *\<close>: an address.\<close>

type_synonym git_repository = nat

text \<open>
  Modelled from the spec: the \<open>git_remote\<close> struct of libgit2 (declared in git2/remote.h,
  not under src/), with the attributes the spec gives a RemoteHandle.  An anonymous
  remote has no name.
\<close>

record git_remote =
  remote_name :: "string option"
  remote_url :: string
  remote_pushurl :: "string option"
  remote_refspecs :: "string list"

text \<open>
  A Ruby \<open>VALUE\<close>, as far as this file tells values apart: \<open>nil\<close>, a String, a
  Rugged::Remote wrapping a \<open>git_remote\<close>, a Rugged::Repository wrapping a
  \<open>git_repository\<close>, a RemoteCollection with its \<open>@owner\<close>, the Enumerator that
  \<open>to_enum\<close> builds from a receiver and a method name, and any other object.
\<close>

datatype VALUE =
    Qnil
  | T_STRING string
  | Remote git_remote
  | Repository git_repository
  | RemoteCollection VALUE
  | Enumerator VALUE string
  | Object nat

text \<open>
  The exceptions that leave the functions of the file.  \<open>JumpTag\<close> is
  \<open>rb_jump_tag(exception)\<close>: the non-local exit of the block (an exception, a
  \<open>break\<close>, a \<open>throw\<close>) that \<open>rb_protect\<close> caught, resumed with the same tag.
  \<open>GitError\<close> is what \<open>rugged_exception_check\<close> raises for a libgit2 error code.
\<close>

datatype exn =
    TypeError string
  | ArgumentError string
  | RepositoryUnavailable
  | GitError int
  | JumpTag int

text \<open>The calls the binding makes, in the order it makes them.\<close>

datatype event =
    Call_remote_list git_repository
  | Call_remote_load git_repository string
  | Call_remote_create git_repository string string
  | Call_remote_create_anonymous git_repository string
  | Call_remote_delete git_repository string
  | Yield VALUE

record 'w st =
  world :: 'w
  trace :: "event list"

text \<open>
  The functions of libgit2 the file calls (not under src/), taken as parameters.  Each
  returns its \<open>int\<close> error code, its out-parameter, and the world it leaves.
  \<open>valid_remote_url\<close> is the test behind \<open>rugged_validate_remote_url\<close>.
\<close>

record 'w libgit2 =
  git_remote_list :: "git_repository \<Rightarrow> 'w \<Rightarrow> (int \<times> string list) \<times> 'w"
  git_remote_load :: "git_repository \<Rightarrow> string \<Rightarrow> 'w \<Rightarrow> (int \<times> git_remote) \<times> 'w"
  git_remote_create :: "git_repository \<Rightarrow> string \<Rightarrow> string \<Rightarrow> 'w \<Rightarrow> (int \<times> git_remote) \<times> 'w"
  git_remote_create_anonymous :: "git_repository \<Rightarrow> string \<Rightarrow> 'w \<Rightarrow> (int \<times> git_remote) \<times> 'w"
  git_remote_delete :: "git_repository \<Rightarrow> string \<Rightarrow> 'w \<Rightarrow> int \<times> 'w"
  valid_remote_url :: "string \<Rightarrow> bool"

text \<open>
  The block of the Ruby call: it takes the yielded value and the world and returns the
  state \<open>rb_protect\<close> stores in \<open>exception\<close> (0 when the block returned normally)
  and the world it leaves.  A block may do anything to the world, also delete remotes.
\<close>

type_synonym 'w block = "VALUE \<Rightarrow> 'w \<Rightarrow> int \<times> 'w"

subsection \<open>Constants and helpers of rugged.h, ruby.h and git2/errors.h\<close>

text \<open>
  Modelled from the spec: the NotFound code of the store, libgit2's
  \<open>GIT_ENOTFOUND\<close> (git2/errors.h, not under src/).
\<close>

definition GIT_ENOTFOUND :: int where
  "GIT_ENOTFOUND = - 3"

text \<open>
  Modelled from the spec: \<open>rugged_owner\<close> and \<open>rugged_set_owner\<close> (rugged.h, not under
  src/) read and write the repository a collection is bound to.  An object without
  the instance variable answers \<open>nil\<close>.
\<close>

fun rugged_owner :: "VALUE \<Rightarrow> VALUE" where
  "rugged_owner (RemoteCollection owner) = owner"
| "rugged_owner _ = Qnil"

fun rugged_set_owner :: "VALUE \<Rightarrow> VALUE \<Rightarrow> VALUE" where
  "rugged_set_owner (RemoteCollection _) owner = RemoteCollection owner"
| "rugged_set_owner v _ = v"

text \<open>
  Modelled from the spec: \<open>rugged_check_repo\<close> (rugged\_repo.c, not under src/) fails
  with RepositoryUnavailable unless the bound owner is a live repository handle.  The
  model returns the \<open>git_repository *\<close> that \<open>Data_Get_Struct\<close> reads on the next
  line of every caller.
\<close>

fun rugged_check_repo :: "VALUE \<Rightarrow> exn + git_repository" where
  "rugged_check_repo (Repository repo) = Inr repo"
| "rugged_check_repo _ = Inl RepositoryUnavailable"

text \<open>\<open>Check_Type(v, T_STRING)\<close> of ruby.h: a TypeError unless \<open>v\<close> is a String.\<close>

fun Check_Type_STRING :: "VALUE \<Rightarrow> exn + string" where
  "Check_Type_STRING (T_STRING s) = Inr s"
| "Check_Type_STRING _ = Inl (TypeError ''wrong argument type (expected String)'')"

text \<open>
  \<open>StringValueCStr\<close> of ruby.h: the C string of a Ruby String; an ArgumentError when
  the String holds a NUL byte.
\<close>

definition StringValueCStr :: "string \<Rightarrow> exn + string" where
  "StringValueCStr s =
     (if CHR 0x00 \<in> set s then Inl (ArgumentError ''string contains null byte'') else Inr s)"

text \<open>
  Modelled from the spec: \<open>rugged_validate_remote_url\<close> (rugged\_remote.c, not under
  src/) fails with an InvalidArgument-class error for a URL the collaborator's
  validation refuses.
\<close>

definition rugged_validate_remote_url :: "'w libgit2 \<Rightarrow> string \<Rightarrow> exn option" where
  "rugged_validate_remote_url lg url =
     (if valid_remote_url lg url then None else Some (ArgumentError ''Invalid URL format''))"

text \<open>
  Modelled from the spec: \<open>rugged_exception_check\<close> (rugged.h, not under src/) raises
  the store's failure, unchanged, as the error of the call.  libgit2 reports a failure
  as a negative code.
\<close>

definition rugged_exception_check :: "int \<Rightarrow> exn option" where
  "rugged_exception_check errorcode = (if errorcode < 0 then Some (GitError errorcode) else None)"

text \<open>
  Modelled from the spec: \<open>rugged_remote_new\<close> (rugged\_remote.c, not under src/) wraps
  a \<open>git_remote\<close> in a Rugged::Remote, and \<open>Remote#name\<close> answers its name, \<open>nil\<close>
  for an anonymous remote.
\<close>

definition rugged_remote_new :: "VALUE \<Rightarrow> git_remote \<Rightarrow> VALUE" where
  "rugged_remote_new owner remote = Remote remote"

definition rb_remote_name :: "git_remote \<Rightarrow> VALUE" where
  "rb_remote_name remote = (case remote_name remote of None \<Rightarrow> Qnil | Some n \<Rightarrow> T_STRING n)"

definition rb_str_new_utf8 :: "string \<Rightarrow> VALUE" where
  "rb_str_new_utf8 s = T_STRING s"

subsection \<open>Calls that leave the binding\<close>

definition call_remote_list :: "'w libgit2 \<Rightarrow> git_repository \<Rightarrow> 'w st \<Rightarrow> (int \<times> string list) \<times> 'w st" where
  "call_remote_list lg repo s =
     (let (r, w) = git_remote_list lg repo (world s)
      in (r, \<lparr>world = w, trace = trace s @ [Call_remote_list repo]\<rparr>))"

definition call_remote_load :: "'w libgit2 \<Rightarrow> git_repository \<Rightarrow> string \<Rightarrow> 'w st \<Rightarrow> (int \<times> git_remote) \<times> 'w st" where
  "call_remote_load lg repo name s =
     (let (r, w) = git_remote_load lg repo name (world s)
      in (r, \<lparr>world = w, trace = trace s @ [Call_remote_load repo name]\<rparr>))"

definition call_remote_create :: "'w libgit2 \<Rightarrow> git_repository \<Rightarrow> string \<Rightarrow> string \<Rightarrow> 'w st \<Rightarrow> (int \<times> git_remote) \<times> 'w st" where
  "call_remote_create lg repo name url s =
     (let (r, w) = git_remote_create lg repo name url (world s)
      in (r, \<lparr>world = w, trace = trace s @ [Call_remote_create repo name url]\<rparr>))"

definition call_remote_create_anonymous :: "'w libgit2 \<Rightarrow> git_repository \<Rightarrow> string \<Rightarrow> 'w st \<Rightarrow> (int \<times> git_remote) \<times> 'w st" where
  "call_remote_create_anonymous lg repo url s =
     (let (r, w) = git_remote_create_anonymous lg repo url (world s)
      in (r, \<lparr>world = w, trace = trace s @ [Call_remote_create_anonymous repo url]\<rparr>))"

definition call_remote_delete :: "'w libgit2 \<Rightarrow> git_repository \<Rightarrow> string \<Rightarrow> 'w st \<Rightarrow> int \<times> 'w st" where
  "call_remote_delete lg repo name s =
     (let (r, w) = git_remote_delete lg repo name (world s)
      in (r, \<lparr>world = w, trace = trace s @ [Call_remote_delete repo name]\<rparr>))"

text \<open>\<open>rb_protect(rb_yield, v, &exception)\<close>: run the block on \<open>v\<close>, catch its exit.\<close>

definition rb_protect_yield :: "'w block \<Rightarrow> VALUE \<Rightarrow> 'w st \<Rightarrow> int \<times> 'w st" where
  "rb_protect_yield blk v s =
     (let (exception, w) = blk v (world s)
      in (exception, \<lparr>world = w, trace = trace s @ [Yield v]\<rparr>))"

subsection \<open>The functions of the file\<close>

definition rb_git_remote_collection_initialize :: "VALUE \<Rightarrow> VALUE \<Rightarrow> VALUE" where
  "rb_git_remote_collection_initialize self repo = rugged_set_owner self repo"

definition rb_git_remote_collection_create_anonymous ::
  "'w libgit2 \<Rightarrow> VALUE \<Rightarrow> VALUE \<Rightarrow> 'w st \<Rightarrow> (exn + VALUE) \<times> 'w st" where
  "rb_git_remote_collection_create_anonymous lg self rb_url s =
     (let rb_repo = rugged_owner self in
      case rugged_check_repo rb_repo of Inl e \<Rightarrow> (Inl e, s) | Inr repo \<Rightarrow>
     (case Check_Type_STRING rb_url of Inl e \<Rightarrow> (Inl e, s) | Inr url \<Rightarrow>
     (case rugged_validate_remote_url lg url of Some e \<Rightarrow> (Inl e, s) | None \<Rightarrow>
     (case StringValueCStr url of Inl e \<Rightarrow> (Inl e, s) | Inr c_url \<Rightarrow>
     (let ((error, remote), s') = call_remote_create_anonymous lg repo c_url s in
      case rugged_exception_check error of Some e \<Rightarrow> (Inl e, s')
      | None \<Rightarrow> (Inr (rugged_remote_new rb_repo remote), s'))))))"

definition rb_git_remote_collection_create ::
  "'w libgit2 \<Rightarrow> VALUE \<Rightarrow> VALUE \<Rightarrow> VALUE \<Rightarrow> 'w st \<Rightarrow> (exn + VALUE) \<times> 'w st" where
  "rb_git_remote_collection_create lg self rb_name rb_url s =
     (let rb_repo = rugged_owner self in
      case rugged_check_repo rb_repo of Inl e \<Rightarrow> (Inl e, s) | Inr repo \<Rightarrow>
     (case Check_Type_STRING rb_name of Inl e \<Rightarrow> (Inl e, s) | Inr name \<Rightarrow>
     (case Check_Type_STRING rb_url of Inl e \<Rightarrow> (Inl e, s) | Inr url \<Rightarrow>
     (case rugged_validate_remote_url lg url of Some e \<Rightarrow> (Inl e, s) | None \<Rightarrow>
     (case StringValueCStr name of Inl e \<Rightarrow> (Inl e, s) | Inr c_name \<Rightarrow>
     (case StringValueCStr url of Inl e \<Rightarrow> (Inl e, s) | Inr c_url \<Rightarrow>
     (let ((error, remote), s') = call_remote_create lg repo c_name c_url s in
      case rugged_exception_check error of Some e \<Rightarrow> (Inl e, s')
      | None \<Rightarrow> (Inr (rugged_remote_new rb_repo remote), s'))))))))"

definition rb_git_remote_collection_aref ::
  "'w libgit2 \<Rightarrow> VALUE \<Rightarrow> VALUE \<Rightarrow> 'w st \<Rightarrow> (exn + VALUE) \<times> 'w st" where
  "rb_git_remote_collection_aref lg self rb_name s =
     (let rb_repo = rugged_owner self in
      case rugged_check_repo rb_repo of Inl e \<Rightarrow> (Inl e, s) | Inr repo \<Rightarrow>
     (case Check_Type_STRING rb_name of Inl e \<Rightarrow> (Inl e, s) | Inr name \<Rightarrow>
     (case StringValueCStr name of Inl e \<Rightarrow> (Inl e, s) | Inr c_name \<Rightarrow>
     (let ((error, remote), s') = call_remote_load lg repo c_name s in
      if error = GIT_ENOTFOUND then (Inr Qnil, s')
      else (case rugged_exception_check error of Some e \<Rightarrow> (Inl e, s')
            | None \<Rightarrow> (Inr (rugged_remote_new rb_repo remote), s'))))))"

text \<open>
  The loop of \<open>each_name\<close>:
  \<^verbatim>\<open>for (i = 0; !exception && i < remotes.count; ++i)\<close>.
  The list is what is left of \<open>remotes.strings\<close> from index \<open>i\<close> on.
\<close>

fun each_name_loop :: "'w block \<Rightarrow> string list \<Rightarrow> int \<Rightarrow> 'w st \<Rightarrow> int \<times> 'w st" where
  "each_name_loop blk [] exception s = (exception, s)"
| "each_name_loop blk (n # ns) exception s =
     (if exception \<noteq> 0 then (exception, s)
      else let (exception', s') = rb_protect_yield blk (rb_str_new_utf8 n) s
           in each_name_loop blk ns exception' s')"

text \<open>
  The loop of \<open>each\<close>:
  \<^verbatim>\<open>for (i = 0; !exception && !error && i < remotes.count; ++i)\<close>.
\<close>

fun each_loop ::
  "'w libgit2 \<Rightarrow> 'w block \<Rightarrow> VALUE \<Rightarrow> git_repository \<Rightarrow> string list \<Rightarrow> int \<Rightarrow> int \<Rightarrow> 'w st
     \<Rightarrow> int \<times> int \<times> 'w st" where
  "each_loop lg blk rb_repo repo [] error exception s = (error, exception, s)"
| "each_loop lg blk rb_repo repo (n # ns) error exception s =
     (if exception \<noteq> 0 \<or> error \<noteq> 0 then (error, exception, s)
      else let ((error', remote), s1) = call_remote_load lg repo n s in
           if error' = 0
           then let (exception', s2) = rb_protect_yield blk (rugged_remote_new rb_repo remote) s1
                in each_loop lg blk rb_repo repo ns error' exception' s2
           else each_loop lg blk rb_repo repo ns error' exception s1)"

definition rb_git_remote_collection__each ::
  "'w libgit2 \<Rightarrow> 'w block option \<Rightarrow> VALUE \<Rightarrow> int \<Rightarrow> 'w st \<Rightarrow> (exn + VALUE) \<times> 'w st" where
  "rb_git_remote_collection__each lg block self only_names s =
     (case block of
        None \<Rightarrow>
          (if only_names \<noteq> 0 then (Inr (Enumerator self ''each_name''), s)
           else (Inr (Enumerator self ''each''), s))
      | Some blk \<Rightarrow>
         (let rb_repo = rugged_owner self in
          case rugged_check_repo rb_repo of Inl e \<Rightarrow> (Inl e, s) | Inr repo \<Rightarrow>
         (let ((error, remotes), s1) = call_remote_list lg repo s in
          case rugged_exception_check error of Some e \<Rightarrow> (Inl e, s1) | None \<Rightarrow>
         (let (error', exception, s2) =
                (if only_names \<noteq> 0
                 then let (exception, s2) = each_name_loop blk remotes 0 s1 in (error, exception, s2)
                 else each_loop lg blk rb_repo repo remotes error 0 s1)
          in if exception \<noteq> 0 then (Inl (JumpTag exception), s2)
             else (case rugged_exception_check error' of Some e \<Rightarrow> (Inl e, s2)
                   | None \<Rightarrow> (Inr Qnil, s2))))))"

definition rb_git_remote_collection_each ::
  "'w libgit2 \<Rightarrow> 'w block option \<Rightarrow> VALUE \<Rightarrow> 'w st \<Rightarrow> (exn + VALUE) \<times> 'w st" where
  "rb_git_remote_collection_each lg block self = rb_git_remote_collection__each lg block self 0"

definition rb_git_remote_collection_each_name ::
  "'w libgit2 \<Rightarrow> 'w block option \<Rightarrow> VALUE \<Rightarrow> 'w st \<Rightarrow> (exn + VALUE) \<times> 'w st" where
  "rb_git_remote_collection_each_name lg block self = rb_git_remote_collection__each lg block self 1"

text \<open>
  \<open>delete\<close>: a Rugged::Remote is replaced by the answer of its \<open>name\<close> method, then
  anything that is not a String is a TypeError, and only then is the repository checked.
\<close>

definition rb_git_remote_collection_delete ::
  "'w libgit2 \<Rightarrow> VALUE \<Rightarrow> VALUE \<Rightarrow> 'w st \<Rightarrow> (exn + VALUE) \<times> 'w st" where
  "rb_git_remote_collection_delete lg self rb_name_or_remote s =
     (let rb_repo = rugged_owner self;
          rb_name_or_remote' =
            (case rb_name_or_remote of Remote r \<Rightarrow> rb_remote_name r | v \<Rightarrow> v)
      in case rb_name_or_remote' of
           T_STRING name \<Rightarrow>
             (case rugged_check_repo rb_repo of Inl e \<Rightarrow> (Inl e, s) | Inr repo \<Rightarrow>
             (case StringValueCStr name of Inl e \<Rightarrow> (Inl e, s) | Inr c_name \<Rightarrow>
             (let (error, s') = call_remote_delete lg repo c_name s in
              case rugged_exception_check error of Some e \<Rightarrow> (Inl e, s')
              | None \<Rightarrow> (Inr Qnil, s'))))
         | _ \<Rightarrow> (Inl (TypeError ''Expecting a String or Rugged::Remote instance''), s))"

subsection \<open>The configuration store\<close>

text \<open>
  Modelled from the spec: ConfigStore, the part of libgit2 behind the five calls
  (vendored, not under src/).  It persists remote name to URL, in the order of
  creation; \<open>corrupt\<close> stands for the I/O or corruption failure the spec calls
  StoreError.  The grammar of names and URLs belongs to the collaborator, so the two
  validity tests are parameters.
\<close>

record config_store =
  remotes :: "(string \<times> string) list"
  corrupt :: bool

definition GIT_ERROR :: int where
  "GIT_ERROR = - 1"

definition GIT_EEXISTS :: int where
  "GIT_EEXISTS = - 4"

definition GIT_EINVALIDSPEC :: int where
  "GIT_EINVALIDSPEC = - 12"

definition no_remote :: git_remote where
  "no_remote = \<lparr>remote_name = None, remote_url = [], remote_pushurl = None, remote_refspecs = []\<rparr>"

text \<open>A collection-created remote gets a default fetch refspec, an anonymous one none.\<close>

definition default_refspec :: "string \<Rightarrow> string" where
  "default_refspec name = ''+refs/heads/*:refs/remotes/'' @ name @ ''/*''"

definition named_remote :: "string \<Rightarrow> string \<Rightarrow> git_remote" where
  "named_remote name url =
     \<lparr>remote_name = Some name, remote_url = url, remote_pushurl = None,
      remote_refspecs = [default_refspec name]\<rparr>"

definition anonymous_remote :: "string \<Rightarrow> git_remote" where
  "anonymous_remote url =
     \<lparr>remote_name = None, remote_url = url, remote_pushurl = None, remote_refspecs = []\<rparr>"

text \<open>\<open>listRemoteNames\<close>: the names, in the store's order; StoreError on corruption.\<close>

definition listRemoteNames :: "git_repository \<Rightarrow> config_store \<Rightarrow> (int \<times> string list) \<times> config_store" where
  "listRemoteNames repo w =
     (if corrupt w then ((GIT_ERROR, []), w) else ((0, map fst (remotes w)), w))"

text \<open>\<open>loadRemote\<close>: NotFound if absent, StoreError otherwise.\<close>

definition loadRemote :: "git_repository \<Rightarrow> string \<Rightarrow> config_store \<Rightarrow> (int \<times> git_remote) \<times> config_store" where
  "loadRemote repo name w =
     (if corrupt w then ((GIT_ERROR, no_remote), w)
      else case map_of (remotes w) name of
             None \<Rightarrow> ((GIT_ENOTFOUND, no_remote), w)
           | Some url \<Rightarrow> ((0, named_remote name url), w))"

text \<open>\<open>createRemote\<close>: fails with AlreadyExists, InvalidArgument, StoreError; else writes.\<close>

definition createRemote ::
  "(string \<Rightarrow> bool) \<Rightarrow> (string \<Rightarrow> bool) \<Rightarrow> git_repository \<Rightarrow> string \<Rightarrow> string \<Rightarrow> config_store
     \<Rightarrow> (int \<times> git_remote) \<times> config_store" where
  "createRemote valid_name valid_url repo name url w =
     (if corrupt w then ((GIT_ERROR, no_remote), w)
      else if name \<in> fst ` set (remotes w) then ((GIT_EEXISTS, no_remote), w)
      else if \<not> valid_name name \<or> \<not> valid_url url then ((GIT_EINVALIDSPEC, no_remote), w)
      else ((0, named_remote name url), w\<lparr>remotes := remotes w @ [(name, url)]\<rparr>))"

text \<open>\<open>createAnonymousRemote\<close>: no persistence.\<close>

definition createAnonymousRemote ::
  "(string \<Rightarrow> bool) \<Rightarrow> git_repository \<Rightarrow> string \<Rightarrow> config_store \<Rightarrow> (int \<times> git_remote) \<times> config_store" where
  "createAnonymousRemote valid_url repo url w =
     (if \<not> valid_url url then ((GIT_EINVALIDSPEC, no_remote), w)
      else ((0, anonymous_remote url), w))"

text \<open>\<open>deleteRemote\<close>: a missing name is the store's NotFound.\<close>

definition deleteRemote :: "git_repository \<Rightarrow> string \<Rightarrow> config_store \<Rightarrow> int \<times> config_store" where
  "deleteRemote repo name w =
     (if corrupt w then (GIT_ERROR, w)
      else if name \<notin> fst ` set (remotes w) then (GIT_ENOTFOUND, w)
      else (0, w\<lparr>remotes := filter (\<lambda>(n, u). n \<noteq> name) (remotes w)\<rparr>))"

definition ConfigStore :: "(string \<Rightarrow> bool) \<Rightarrow> (string \<Rightarrow> bool) \<Rightarrow> config_store libgit2" where
  "ConfigStore valid_name valid_url =
     \<lparr>git_remote_list = listRemoteNames,
      git_remote_load = loadRemote,
      git_remote_create = createRemote valid_name valid_url,
      git_remote_create_anonymous = createAnonymousRemote valid_url,
      git_remote_delete = deleteRemote,
      valid_remote_url = valid_url\<rparr>"

text \<open>The weakest validity the spec names: a non-empty string.\<close>

definition non_empty :: "string \<Rightarrow> bool" where
  "non_empty s = (s \<noteq> [])"

subsection \<open>Concrete stores and blocks\<close>

text \<open>
  The store with the weakest validity, two small configurations, and three blocks: one
  that returns normally, one that deletes a remote while it is visited, and one that
  raises (\<open>TAG_RAISE\<close> is 6) on the entry of a given name.
\<close>

definition git :: "config_store libgit2" where
  "git = ConfigStore non_empty non_empty"

definition store_ab :: config_store where
  "store_ab = \<lparr>remotes = [(''a'', ''u1''), (''b'', ''u2'')], corrupt = False\<rparr>"

definition store_abc :: config_store where
  "store_abc = \<lparr>remotes = [(''a'', ''u1''), (''b'', ''u2''), (''c'', ''u3'')], corrupt = False\<rparr>"

definition fresh :: "'w \<Rightarrow> 'w st" where
  "fresh w = \<lparr>world = w, trace = []\<rparr>"

definition visit_ok :: "config_store block" where
  "visit_ok v w = (0, w)"

definition visit_deleting :: "string \<Rightarrow> config_store block" where
  "visit_deleting name v w = (0, snd (deleteRemote 0 name w))"

definition names :: "VALUE \<Rightarrow> string \<Rightarrow> bool" where
  "names v n = (case v of T_STRING s \<Rightarrow> s = n | Remote r \<Rightarrow> remote_name r = Some n | _ \<Rightarrow> False)"

definition visit_raising_on :: "string \<Rightarrow> config_store block" where
  "visit_raising_on bad v w = (if names v bad then (6, w) else (0, w))"

section \<open>Properties\<close>

subsection \<open>The two loops\<close>

text \<open>
  Both loops test their flags at the head, so a loop entered with a flag set does
  nothing, and a loop over \<open>xs @ ys\<close> is the loop over \<open>xs\<close> followed by the loop
  over \<open>ys\<close>.
\<close>

lemma each_name_loop_stop: "x \<noteq> 0 \<Longrightarrow> each_name_loop blk ns x s = (x, s)"
  by (cases ns) simp_all

lemma each_name_loop_append:
  "each_name_loop blk (xs @ ys) x s =
     (case each_name_loop blk xs x s of (x', s') \<Rightarrow> each_name_loop blk ys x' s')"
  by (induction xs arbitrary: x s) (simp_all add: each_name_loop_stop split: prod.splits)

lemma each_loop_stop: "x \<noteq> 0 \<or> e \<noteq> 0 \<Longrightarrow> each_loop lg blk rb repo ns e x s = (e, x, s)"
  by (cases ns) auto

lemma each_loop_append:
  "each_loop lg blk rb repo (xs @ ys) e x s =
     (case each_loop lg blk rb repo xs e x s of (e', x', s') \<Rightarrow> each_loop lg blk rb repo ys e' x' s')"
  by (induction xs arbitrary: e x s) (simp_all add: each_loop_stop split: prod.splits)

lemma each_loop_failed_load:
  assumes "git_remote_load lg repo n (world s) = ((e, r), w)" and "e \<noteq> 0"
  shows "each_loop lg blk rb repo (n # post) 0 0 s =
           (e, 0, \<lparr>world = w, trace = trace s @ [Call_remote_load repo n]\<rparr>)"
  using assms by (simp add: call_remote_load_def each_loop_stop)

lemma each_loop_failed_yield:
  assumes "git_remote_load lg repo n (world s) = ((0, r), w)"
    and "blk (Remote r) w = (tag, w')" and "tag \<noteq> 0"
  shows "each_loop lg blk rb repo (n # post) 0 0 s =
           (0, tag, \<lparr>world = w', trace = trace s @ [Call_remote_load repo n, Yield (Remote r)]\<rparr>)"
  using assms
  by (simp add: call_remote_load_def rb_protect_yield_def rugged_remote_new_def each_loop_stop)

lemma each_name_loop_failed_yield:
  assumes "blk (T_STRING n) (world s) = (tag, w')" and "tag \<noteq> 0"
  shows "each_name_loop blk (n # post) 0 s =
           (tag, \<lparr>world = w', trace = trace s @ [Yield (T_STRING n)]\<rparr>)"
  using assms
  by (simp add: rb_protect_yield_def rb_str_new_utf8_def each_name_loop_stop)

lemma each_name_loop_all:
  assumes "\<forall>v w. fst (blk v w) = 0"
  shows "each_name_loop blk ns 0 s =
           (0, \<lparr>world = foldl (\<lambda>w n. snd (blk (T_STRING n) w)) (world s) ns,
                trace = trace s @ map (\<lambda>n. Yield (T_STRING n)) ns\<rparr>)"
proof (induction ns arbitrary: s)
  case Nil
  show ?case by simp
next
  case (Cons n ns)
  obtain x w where b: "blk (T_STRING n) (world s) = (x, w)"
    by (cases "blk (T_STRING n) (world s)")
  with assms have x: "x = 0"
    by (metis fst_conv)
  show ?case
    using b x Cons.IH [of "\<lparr>world = w, trace = trace s @ [Yield (T_STRING n)]\<rparr>"]
    by (simp add: rb_protect_yield_def rb_str_new_utf8_def)
qed

subsection \<open>Iteration\<close>

text \<open>
  C1.  During \<open>each\<close> with a block, when \<open>git_remote_load\<close> fails for a name of the
  snapshot (the names before it loaded and visited without failure), the iteration
  stops there: the load of that name is the last event of the trace, so no later name
  is loaded or yielded, and the call raises the error of that load.  The name is not
  skipped.  A name deleted between the snapshot and its load is the case
  \<open>e = GIT_ENOTFOUND\<close>; the witness runs it, with a block that deletes \<open>b\<close> while
  \<open>a\<close> is visited.
\<close>

theorem each_aborts_on_failed_load:
  assumes "rugged_owner self = Repository repo"
    and "git_remote_list lg repo (world s) = ((0, pre @ n # post), w1)"
    and "each_loop lg blk (Repository repo) repo pre 0 0
           \<lparr>world = w1, trace = trace s @ [Call_remote_list repo]\<rparr> = (0, 0, s2)"
    and "git_remote_load lg repo n (world s2) = ((e, r), w3)"
    and "e < 0"
  shows "rb_git_remote_collection_each lg (Some blk) self s =
           (Inl (GitError e), \<lparr>world = w3, trace = trace s2 @ [Call_remote_load repo n]\<rparr>)"
proof -
  have "e \<noteq> 0"
    using assms(5) by simp
  then have "each_loop lg blk (Repository repo) repo (pre @ n # post) 0 0
               \<lparr>world = w1, trace = trace s @ [Call_remote_list repo]\<rparr> =
             (e, 0, \<lparr>world = w3, trace = trace s2 @ [Call_remote_load repo n]\<rparr>)"
    using assms(3,4) by (simp add: each_loop_append each_loop_failed_load del: each_loop.simps)
  then show ?thesis
    using assms(1,2,5)
    by (simp add: rb_git_remote_collection_each_def rb_git_remote_collection__each_def
        call_remote_list_def rugged_exception_check_def)
qed

theorem each_aborts_on_failed_load_witness:
  "rb_git_remote_collection_each git (Some (visit_deleting ''b''))
     (RemoteCollection (Repository 7)) (fresh store_ab) =
   (Inl (GitError GIT_ENOTFOUND),
    \<lparr>world = \<lparr>remotes = [(''a'', ''u1'')], corrupt = False\<rparr>,
     trace = [Call_remote_list 7, Call_remote_load 7 ''a'',
              Yield (Remote (named_remote ''a'' ''u1'')), Call_remote_load 7 ''b'']\<rparr>)"
  using each_aborts_on_failed_load [where self = "RemoteCollection (Repository 7)" and repo = 7
      and lg = git and s = "fresh store_ab" and pre = "[''a'']" and n = "''b''" and post = "[]"
      and ?w1.0 = store_ab and blk = "visit_deleting ''b''"
      and ?s2.0 = "\<lparr>world = \<lparr>remotes = [(''a'', ''u1'')], corrupt = False\<rparr>,
                    trace = [Call_remote_list 7, Call_remote_load 7 ''a'',
                             Yield (Remote (named_remote ''a'' ''u1''))]\<rparr>"
      and e = GIT_ENOTFOUND and r = no_remote
      and ?w3.0 = "\<lparr>remotes = [(''a'', ''u1'')], corrupt = False\<rparr>"]
  by (simp add: git_def ConfigStore_def fresh_def store_ab_def visit_deleting_def
      listRemoteNames_def loadRemote_def deleteRemote_def call_remote_load_def
      rb_protect_yield_def rugged_remote_new_def GIT_ENOTFOUND_def)

text \<open>
  C2.  In both modes, when the block fails or asks to stop on a name of the snapshot (the
  names before it visited without failure), that visit is the last event of the trace,
  so no further name is visited, and the call ends in \<open>rb_jump_tag\<close> with the very
  tag \<open>rb_protect\<close> caught: the block's own exit, resumed, in the world the block
  left.  The first conjunct is \<open>each_name\<close>, the second \<open>each\<close>.  The witness
  fails on the second of three names.
\<close>

theorem each_stops_on_block_failure:
  "(rugged_owner self = Repository repo \<and>
    git_remote_list lg repo (world s) = ((0, pre @ n # post), w1) \<and>
    each_name_loop blk pre 0 \<lparr>world = w1, trace = trace s @ [Call_remote_list repo]\<rparr> = (0, s2) \<and>
    blk (T_STRING n) (world s2) = (tag, w3) \<and> tag \<noteq> 0
    \<longrightarrow> rb_git_remote_collection_each_name lg (Some blk) self s =
          (Inl (JumpTag tag), \<lparr>world = w3, trace = trace s2 @ [Yield (T_STRING n)]\<rparr>))
   \<and>
   (rugged_owner self = Repository repo \<and>
    git_remote_list lg repo (world s) = ((0, pre @ n # post), w1) \<and>
    each_loop lg blk (Repository repo) repo pre 0 0
      \<lparr>world = w1, trace = trace s @ [Call_remote_list repo]\<rparr> = (0, 0, s2') \<and>
    git_remote_load lg repo n (world s2') = ((0, r), w3') \<and>
    blk (Remote r) w3' = (tag', w4) \<and> tag' \<noteq> 0
    \<longrightarrow> rb_git_remote_collection_each lg (Some blk) self s =
          (Inl (JumpTag tag'),
           \<lparr>world = w4, trace = trace s2' @ [Call_remote_load repo n, Yield (Remote r)]\<rparr>))"
proof (intro conjI impI)
  assume a: "rugged_owner self = Repository repo \<and>
    git_remote_list lg repo (world s) = ((0, pre @ n # post), w1) \<and>
    each_name_loop blk pre 0 \<lparr>world = w1, trace = trace s @ [Call_remote_list repo]\<rparr> = (0, s2) \<and>
    blk (T_STRING n) (world s2) = (tag, w3) \<and> tag \<noteq> 0"
  then have "each_name_loop blk (pre @ n # post) 0
               \<lparr>world = w1, trace = trace s @ [Call_remote_list repo]\<rparr> =
             (tag, \<lparr>world = w3, trace = trace s2 @ [Yield (T_STRING n)]\<rparr>)"
    by (simp add: each_name_loop_append each_name_loop_failed_yield del: each_name_loop.simps)
  with a show "rb_git_remote_collection_each_name lg (Some blk) self s =
          (Inl (JumpTag tag), \<lparr>world = w3, trace = trace s2 @ [Yield (T_STRING n)]\<rparr>)"
    by (simp add: rb_git_remote_collection_each_name_def rb_git_remote_collection__each_def
        call_remote_list_def rugged_exception_check_def)
next
  assume a: "rugged_owner self = Repository repo \<and>
    git_remote_list lg repo (world s) = ((0, pre @ n # post), w1) \<and>
    each_loop lg blk (Repository repo) repo pre 0 0
      \<lparr>world = w1, trace = trace s @ [Call_remote_list repo]\<rparr> = (0, 0, s2') \<and>
    git_remote_load lg repo n (world s2') = ((0, r), w3') \<and>
    blk (Remote r) w3' = (tag', w4) \<and> tag' \<noteq> 0"
  then have "each_loop lg blk (Repository repo) repo (pre @ n # post) 0 0
               \<lparr>world = w1, trace = trace s @ [Call_remote_list repo]\<rparr> =
             (0, tag', \<lparr>world = w4, trace = trace s2' @ [Call_remote_load repo n, Yield (Remote r)]\<rparr>)"
    by (simp add: each_loop_append each_loop_failed_yield del: each_loop.simps)
  with a show "rb_git_remote_collection_each lg (Some blk) self s =
          (Inl (JumpTag tag'),
           \<lparr>world = w4, trace = trace s2' @ [Call_remote_load repo n, Yield (Remote r)]\<rparr>)"
    by (simp add: rb_git_remote_collection_each_def rb_git_remote_collection__each_def
        call_remote_list_def rugged_exception_check_def)
qed

theorem each_stops_on_block_failure_witness:
  "rb_git_remote_collection_each_name git (Some (visit_raising_on ''b''))
     (RemoteCollection (Repository 7)) (fresh store_abc) =
   (Inl (JumpTag 6),
    \<lparr>world = store_abc,
     trace = [Call_remote_list 7, Yield (T_STRING ''a''), Yield (T_STRING ''b'')]\<rparr>)
   \<and>
   rb_git_remote_collection_each git (Some (visit_raising_on ''b''))
     (RemoteCollection (Repository 7)) (fresh store_abc) =
   (Inl (JumpTag 6),
    \<lparr>world = store_abc,
     trace = [Call_remote_list 7, Call_remote_load 7 ''a'', Yield (Remote (named_remote ''a'' ''u1'')),
              Call_remote_load 7 ''b'', Yield (Remote (named_remote ''b'' ''u2''))]\<rparr>)"
  using each_stops_on_block_failure [where self = "RemoteCollection (Repository 7)" and repo = 7
      and lg = git and s = "fresh store_abc" and pre = "[''a'']" and n = "''b''" and post = "[''c'']"
      and ?w1.0 = store_abc and blk = "visit_raising_on ''b''"
      and ?s2.0 = "\<lparr>world = store_abc, trace = [Call_remote_list 7, Yield (T_STRING ''a'')]\<rparr>"
      and tag = 6 and ?w3.0 = store_abc
      and s2' = "\<lparr>world = store_abc, trace = [Call_remote_list 7, Call_remote_load 7 ''a'',
                                              Yield (Remote (named_remote ''a'' ''u1''))]\<rparr>"
      and r = "named_remote ''b'' ''u2''" and w3' = store_abc and tag' = 6 and ?w4.0 = store_abc]
  by (simp add: git_def ConfigStore_def fresh_def store_abc_def visit_raising_on_def names_def
      listRemoteNames_def loadRemote_def call_remote_load_def
      rb_protect_yield_def rugged_remote_new_def rb_str_new_utf8_def named_remote_def)


text \<open>
  C4.  \<open>each_name\<close> with a block that never fails, over a snapshot that
  \<open>git_remote_list\<close> read successfully: the yields of the trace are the names of the
  snapshot, each once, in the snapshot's order, each as the String of that name, and
  the call returns \<open>nil\<close>.  An empty snapshot gives no yield and \<open>nil\<close> (the second
  conjunct of the witness).
\<close>

theorem each_name_visits_snapshot:
  assumes "rugged_owner self = Repository repo"
    and "git_remote_list lg repo (world s) = ((0, snapshot), w1)"
    and "\<forall>v w. fst (blk v w) = 0"
  shows "rb_git_remote_collection_each_name lg (Some blk) self s =
           (Inr Qnil,
            \<lparr>world = foldl (\<lambda>w n. snd (blk (T_STRING n) w)) w1 snapshot,
             trace = trace s @ Call_remote_list repo # map (\<lambda>n. Yield (T_STRING n)) snapshot\<rparr>)"
  using assms(1,2)
    each_name_loop_all [OF assms(3), of snapshot "\<lparr>world = w1, trace = trace s @ [Call_remote_list repo]\<rparr>"]
  by (simp add: rb_git_remote_collection_each_name_def rb_git_remote_collection__each_def
      call_remote_list_def rugged_exception_check_def)

theorem each_name_visits_snapshot_witness:
  "rb_git_remote_collection_each_name git (Some visit_ok)
     (RemoteCollection (Repository 7)) (fresh store_abc) =
   (Inr Qnil,
    \<lparr>world = store_abc,
     trace = [Call_remote_list 7, Yield (T_STRING ''a''), Yield (T_STRING ''b''), Yield (T_STRING ''c'')]\<rparr>)
   \<and>
   rb_git_remote_collection_each_name git (Some visit_ok)
     (RemoteCollection (Repository 7)) (fresh \<lparr>remotes = [], corrupt = False\<rparr>) =
   (Inr Qnil, \<lparr>world = \<lparr>remotes = [], corrupt = False\<rparr>, trace = [Call_remote_list 7]\<rparr>)"
  using each_name_visits_snapshot [where self = "RemoteCollection (Repository 7)" and repo = 7
      and lg = git and s = "fresh store_abc" and snapshot = "[''a'', ''b'', ''c'']"
      and ?w1.0 = store_abc and blk = visit_ok]
    each_name_visits_snapshot [where self = "RemoteCollection (Repository 7)" and repo = 7
      and lg = git and s = "fresh \<lparr>remotes = [], corrupt = False\<rparr>" and snapshot = "[]"
      and ?w1.0 = "\<lparr>remotes = [], corrupt = False\<rparr>" and blk = visit_ok]
  by (simp add: git_def ConfigStore_def fresh_def store_abc_def visit_ok_def listRemoteNames_def)

subsection \<open>Lookup\<close>

lemma aref_valid:
  assumes "rugged_owner self = Repository repo" and "CHR 0x00 \<notin> set name"
    and "git_remote_load lg repo name (world s) = ((e, r), w)"
  shows "rb_git_remote_collection_aref lg self (T_STRING name) s =
           ((if e = GIT_ENOTFOUND then Inr Qnil
             else if e < 0 then Inl (GitError e) else Inr (Remote r)),
            \<lparr>world = w, trace = trace s @ [Call_remote_load repo name]\<rparr>)"
  using assms
  by (simp add: rb_git_remote_collection_aref_def StringValueCStr_def call_remote_load_def
      rugged_exception_check_def rugged_remote_new_def)

lemma aref_Qnil_D:
  assumes "fst (rb_git_remote_collection_aref lg self rb_name s) = Inr Qnil"
  shows "\<exists>repo name. rugged_owner self = Repository repo \<and> rb_name = T_STRING name \<and>
           CHR 0x00 \<notin> set name \<and>
           fst (fst (git_remote_load lg repo name (world s))) = GIT_ENOTFOUND"
proof -
  obtain repo where o: "rugged_owner self = Repository repo"
    using assms
    by (cases "rugged_owner self") (simp_all add: rb_git_remote_collection_aref_def)
  obtain name where n: "rb_name = T_STRING name"
    using assms o
    by (cases rb_name) (simp_all add: rb_git_remote_collection_aref_def)
  have z: "CHR 0x00 \<notin> set name"
    using assms o n
    by (auto simp add: rb_git_remote_collection_aref_def StringValueCStr_def split: if_splits)
  obtain e r w where l: "git_remote_load lg repo name (world s) = ((e, r), w)"
    by (metis surj_pair)
  have "e = GIT_ENOTFOUND"
    using assms aref_valid [OF o z l] n by (simp split: if_splits)
  with o n z l show ?thesis
    by simp
qed

text \<open>
  C3.  \<open>remotes[name]\<close> answers \<open>nil\<close> exactly when the call reached
  \<open>git_remote_load\<close> and the store reported \<open>GIT_ENOTFOUND\<close>; every other failure of
  the load is raised as the error of that code, never turned into \<open>nil\<close>.
\<close>

theorem aref_nil_iff_not_found:
  "(fst (rb_git_remote_collection_aref lg self rb_name s) = Inr Qnil \<longleftrightarrow>
      (\<exists>repo name. rugged_owner self = Repository repo \<and> rb_name = T_STRING name \<and>
         CHR 0x00 \<notin> set name \<and>
         fst (fst (git_remote_load lg repo name (world s))) = GIT_ENOTFOUND))
   \<and>
   (\<forall>repo name e r w.
      rugged_owner self = Repository repo \<and> rb_name = T_STRING name \<and> CHR 0x00 \<notin> set name \<and>
      git_remote_load lg repo name (world s) = ((e, r), w) \<and> e < 0 \<and> e \<noteq> GIT_ENOTFOUND
      \<longrightarrow> rb_git_remote_collection_aref lg self rb_name s =
            (Inl (GitError e), \<lparr>world = w, trace = trace s @ [Call_remote_load repo name]\<rparr>))"
proof (intro conjI iffI allI impI)
  assume "fst (rb_git_remote_collection_aref lg self rb_name s) = Inr Qnil"
  then show "\<exists>repo name. rugged_owner self = Repository repo \<and> rb_name = T_STRING name \<and>
         CHR 0x00 \<notin> set name \<and>
         fst (fst (git_remote_load lg repo name (world s))) = GIT_ENOTFOUND"
    by (rule aref_Qnil_D)
next
  assume "\<exists>repo name. rugged_owner self = Repository repo \<and> rb_name = T_STRING name \<and>
         CHR 0x00 \<notin> set name \<and>
         fst (fst (git_remote_load lg repo name (world s))) = GIT_ENOTFOUND"
  then obtain repo name where o: "rugged_owner self = Repository repo"
    and n: "rb_name = T_STRING name" and z: "CHR 0x00 \<notin> set name"
    and f: "fst (fst (git_remote_load lg repo name (world s))) = GIT_ENOTFOUND"
    by blast
  obtain e r w where l: "git_remote_load lg repo name (world s) = ((e, r), w)"
    by (metis surj_pair)
  with f have "e = GIT_ENOTFOUND"
    by simp
  then show "fst (rb_git_remote_collection_aref lg self rb_name s) = Inr Qnil"
    using aref_valid [OF o z l] n by simp
next
  fix repo name e r w
  assume "rugged_owner self = Repository repo \<and> rb_name = T_STRING name \<and> CHR 0x00 \<notin> set name \<and>
      git_remote_load lg repo name (world s) = ((e, r), w) \<and> e < 0 \<and> e \<noteq> GIT_ENOTFOUND"
  then show "rb_git_remote_collection_aref lg self rb_name s =
            (Inl (GitError e), \<lparr>world = w, trace = trace s @ [Call_remote_load repo name]\<rparr>)"
    using aref_valid [of self repo name lg s e r w] by simp
qed

theorem aref_nil_iff_not_found_witness:
  "fst (rb_git_remote_collection_aref git (RemoteCollection (Repository 7)) (T_STRING ''nope'')
          (fresh \<lparr>remotes = [], corrupt = False\<rparr>)) = Inr Qnil
   \<and>
   rb_git_remote_collection_aref git (RemoteCollection (Repository 7)) (T_STRING ''a'')
     (fresh \<lparr>remotes = [(''a'', ''u1'')], corrupt = True\<rparr>) =
   (Inl (GitError GIT_ERROR),
    \<lparr>world = \<lparr>remotes = [(''a'', ''u1'')], corrupt = True\<rparr>, trace = [Call_remote_load 7 ''a'']\<rparr>)"
proof
  have "\<exists>repo name. rugged_owner (RemoteCollection (Repository 7)) = Repository repo \<and>
          T_STRING ''nope'' = T_STRING name \<and> CHR 0x00 \<notin> set name \<and>
          fst (fst (git_remote_load git repo name
             (world (fresh \<lparr>remotes = [], corrupt = False\<rparr>)))) = GIT_ENOTFOUND"
    by (simp add: git_def ConfigStore_def fresh_def loadRemote_def)
  then show "fst (rb_git_remote_collection_aref git (RemoteCollection (Repository 7))
          (T_STRING ''nope'') (fresh \<lparr>remotes = [], corrupt = False\<rparr>)) = Inr Qnil"
    using aref_nil_iff_not_found [of git "RemoteCollection (Repository 7)" "T_STRING ''nope''"
        "fresh \<lparr>remotes = [], corrupt = False\<rparr>"]
    by blast
next
  show "rb_git_remote_collection_aref git (RemoteCollection (Repository 7)) (T_STRING ''a'')
     (fresh \<lparr>remotes = [(''a'', ''u1'')], corrupt = True\<rparr>) =
   (Inl (GitError GIT_ERROR),
    \<lparr>world = \<lparr>remotes = [(''a'', ''u1'')], corrupt = True\<rparr>, trace = [Call_remote_load 7 ''a'']\<rparr>)"
    using aref_nil_iff_not_found [of git "RemoteCollection (Repository 7)" "T_STRING ''a''"
        "fresh \<lparr>remotes = [(''a'', ''u1'')], corrupt = True\<rparr>"]
    by (simp add: git_def ConfigStore_def fresh_def loadRemote_def GIT_ERROR_def GIT_ENOTFOUND_def)
qed

subsection \<open>Delete and the repository check\<close>

lemma check_repo_not_live:
  "\<forall>repo. v \<noteq> Repository repo \<Longrightarrow> rugged_check_repo v = Inl RepositoryUnavailable"
  by (cases v) simp_all

lemma delete_string:
  "rb_git_remote_collection_delete lg self (T_STRING name) s =
     (case rugged_check_repo (rugged_owner self) of
        Inl e \<Rightarrow> (Inl e, s)
      | Inr repo \<Rightarrow>
          (case StringValueCStr name of
             Inl e \<Rightarrow> (Inl e, s)
           | Inr c_name \<Rightarrow>
               (let (error, s') = call_remote_delete lg repo c_name s
                in case rugged_exception_check error of
                     Some e \<Rightarrow> (Inl e, s')
                   | None \<Rightarrow> (Inr Qnil, s'))))"
  by (simp add: rb_git_remote_collection_delete_def)

lemma delete_named_remote:
  "remote_name r = Some name \<Longrightarrow>
   rb_git_remote_collection_delete lg self (Remote r) s =
   rb_git_remote_collection_delete lg self (T_STRING name) s"
  by (simp add: rb_git_remote_collection_delete_def rb_remote_name_def)

lemma delete_bad_argument:
  assumes "\<forall>name. v \<noteq> T_STRING name" and "\<forall>r. v = Remote r \<longrightarrow> remote_name r = None"
  shows "rb_git_remote_collection_delete lg self v s =
           (Inl (TypeError ''Expecting a String or Rugged::Remote instance''), s)"
  using assms
  by (cases v) (simp_all add: rb_git_remote_collection_delete_def rb_remote_name_def)

lemma delete_not_live:
  assumes "\<forall>repo. rugged_owner self \<noteq> Repository repo"
  shows "snd (rb_git_remote_collection_delete lg self v s) = s"
proof -
  have c: "rugged_check_repo (rugged_owner self) = Inl RepositoryUnavailable"
    using assms by (rule check_repo_not_live)
  show ?thesis
  proof (cases v)
    case (T_STRING name)
    then show ?thesis
      using c by (simp add: delete_string)
  next
    case (Remote r)
    then show ?thesis
      using c by (cases "remote_name r") (simp_all add: delete_named_remote delete_string delete_bad_argument)
  qed (simp_all add: delete_bad_argument)
qed

text \<open>
  C5, as the code has it.  On a collection whose owner is not a live repository,
  \<open>create\<close>, \<open>create_anonymous\<close>, \<open>[]\<close> and \<open>each\<close>/\<open>each_name\<close> run with a
  block fail with RepositoryUnavailable and leave the state as it was: no call
  reached the store.  \<open>delete\<close> does the same for a String or a named remote; for any
  argument it makes no store call.  \<open>each\<close> and \<open>each_name\<close> without a block
  answer the Enumerator and touch neither the repository nor the store.
\<close>

theorem repository_checked_before_store:
  assumes "\<forall>repo. rugged_owner self \<noteq> Repository repo"
  shows "rb_git_remote_collection_create lg self rb_name rb_url s = (Inl RepositoryUnavailable, s)
     \<and> rb_git_remote_collection_create_anonymous lg self rb_url s = (Inl RepositoryUnavailable, s)
     \<and> rb_git_remote_collection_aref lg self rb_name s = (Inl RepositoryUnavailable, s)
     \<and> rb_git_remote_collection_each lg (Some blk) self s = (Inl RepositoryUnavailable, s)
     \<and> rb_git_remote_collection_each_name lg (Some blk) self s = (Inl RepositoryUnavailable, s)
     \<and> rb_git_remote_collection_delete lg self (T_STRING name) s = (Inl RepositoryUnavailable, s)
     \<and> (remote_name r = Some name \<longrightarrow>
          rb_git_remote_collection_delete lg self (Remote r) s = (Inl RepositoryUnavailable, s))
     \<and> snd (rb_git_remote_collection_delete lg self v s) = s
     \<and> rb_git_remote_collection_each lg None self s = (Inr (Enumerator self ''each''), s)
     \<and> rb_git_remote_collection_each_name lg None self s =
         (Inr (Enumerator self ''each_name''), s)"
proof -
  have c: "rugged_check_repo (rugged_owner self) = Inl RepositoryUnavailable"
    using assms by (rule check_repo_not_live)
  have "rb_git_remote_collection_create lg self rb_name rb_url s = (Inl RepositoryUnavailable, s)"
    using c by (simp add: rb_git_remote_collection_create_def)
  moreover have "rb_git_remote_collection_create_anonymous lg self rb_url s =
      (Inl RepositoryUnavailable, s)"
    using c by (simp add: rb_git_remote_collection_create_anonymous_def)
  moreover have "rb_git_remote_collection_aref lg self rb_name s = (Inl RepositoryUnavailable, s)"
    using c by (simp add: rb_git_remote_collection_aref_def)
  moreover have "rb_git_remote_collection_each lg (Some blk) self s = (Inl RepositoryUnavailable, s)"
    using c by (simp add: rb_git_remote_collection_each_def rb_git_remote_collection__each_def)
  moreover have "rb_git_remote_collection_each_name lg (Some blk) self s =
      (Inl RepositoryUnavailable, s)"
    using c by (simp add: rb_git_remote_collection_each_name_def rb_git_remote_collection__each_def)
  moreover have d: "rb_git_remote_collection_delete lg self (T_STRING name) s =
      (Inl RepositoryUnavailable, s)"
    using c by (simp add: delete_string)
  moreover have "remote_name r = Some name \<longrightarrow>
      rb_git_remote_collection_delete lg self (Remote r) s = (Inl RepositoryUnavailable, s)"
    using d by (simp add: delete_named_remote)
  moreover have "snd (rb_git_remote_collection_delete lg self v s) = s"
    using assms by (rule delete_not_live)
  moreover have "rb_git_remote_collection_each lg None self s = (Inr (Enumerator self ''each''), s)"
    by (simp add: rb_git_remote_collection_each_def rb_git_remote_collection__each_def)
  moreover have "rb_git_remote_collection_each_name lg None self s =
      (Inr (Enumerator self ''each_name''), s)"
    by (simp add: rb_git_remote_collection_each_name_def rb_git_remote_collection__each_def)
  ultimately show ?thesis
    by simp
qed

theorem repository_checked_before_store_witness:
  "rb_git_remote_collection_create git (RemoteCollection Qnil) (T_STRING ''c'') (T_STRING ''u3'')
     (fresh store_ab) = (Inl RepositoryUnavailable, fresh store_ab)
   \<and> rb_git_remote_collection_aref git (RemoteCollection Qnil) (T_STRING ''a'') (fresh store_ab) =
       (Inl RepositoryUnavailable, fresh store_ab)
   \<and> rb_git_remote_collection_each git (Some visit_ok) (RemoteCollection Qnil) (fresh store_ab) =
       (Inl RepositoryUnavailable, fresh store_ab)
   \<and> rb_git_remote_collection_delete git (RemoteCollection Qnil) (T_STRING ''a'') (fresh store_ab) =
       (Inl RepositoryUnavailable, fresh store_ab)
   \<and> rb_git_remote_collection_delete git (RemoteCollection Qnil) (Remote (named_remote ''a'' ''u1''))
       (fresh store_ab) = (Inl RepositoryUnavailable, fresh store_ab)
   \<and> rb_git_remote_collection_each_name git None (RemoteCollection Qnil) (fresh store_ab) =
       (Inr (Enumerator (RemoteCollection Qnil) ''each_name''), fresh store_ab)"
  using repository_checked_before_store [where self = "RemoteCollection Qnil" and lg = git
      and rb_name = "T_STRING ''c''" and rb_url = "T_STRING ''u3''" and s = "fresh store_ab"
      and blk = visit_ok and name = "''a''" and r = "named_remote ''a'' ''u1''"]
    repository_checked_before_store [where self = "RemoteCollection Qnil" and lg = git
      and rb_name = "T_STRING ''a''" and s = "fresh store_ab"]
  by (simp add: named_remote_def)


text \<open>
  C5 as stated fails for \<open>delete\<close>: with an argument that is not a String, on a
  collection whose repository is not live, the outcome is the TypeError of the
  argument check, not RepositoryUnavailable.  It fails for \<open>each\<close> without a block
  too: on such a collection the call succeeds with the Enumerator.
\<close>

theorem delete_type_error_on_dead_repository_counterexample:
  "rugged_check_repo (rugged_owner (RemoteCollection Qnil)) = Inl RepositoryUnavailable
   \<and> rb_git_remote_collection_delete git (RemoteCollection Qnil) Qnil (fresh store_ab) =
       (Inl (TypeError ''Expecting a String or Rugged::Remote instance''), fresh store_ab)
   \<and> fst (rb_git_remote_collection_delete git (RemoteCollection Qnil) Qnil (fresh store_ab)) \<noteq>
       Inl RepositoryUnavailable
   \<and> rb_git_remote_collection_each git None (RemoteCollection Qnil) (fresh store_ab) =
       (Inr (Enumerator (RemoteCollection Qnil) ''each''), fresh store_ab)"
  by (simp add: rb_git_remote_collection_delete_def rb_git_remote_collection_each_def
      rb_git_remote_collection__each_def)


text \<open>
  C6.  \<open>delete\<close> of a String calls \<open>git_remote_delete\<close> with that name and surfaces
  its outcome; \<open>delete\<close> of a remote that has a name is \<open>delete\<close> of that name;
  \<open>delete\<close> of anything that is neither a String nor a remote with a name is a
  TypeError (the InvalidArgument class) with no store call; so is \<open>delete\<close> of an
  anonymous remote.
\<close>

theorem delete_accepts_name_or_named_remote:
  "(rugged_owner self = Repository repo \<and> CHR 0x00 \<notin> set name \<and>
    git_remote_delete lg repo name (world s) = (e, w)
    \<longrightarrow> rb_git_remote_collection_delete lg self (T_STRING name) s =
          ((if e < 0 then Inl (GitError e) else Inr Qnil),
           \<lparr>world = w, trace = trace s @ [Call_remote_delete repo name]\<rparr>))
   \<and> (remote_name r = Some name
      \<longrightarrow> rb_git_remote_collection_delete lg self (Remote r) s =
          rb_git_remote_collection_delete lg self (T_STRING name) s)
   \<and> ((\<forall>name. v \<noteq> T_STRING name) \<and> (\<forall>r. v = Remote r \<longrightarrow> remote_name r = None)
      \<longrightarrow> rb_git_remote_collection_delete lg self v s =
          (Inl (TypeError ''Expecting a String or Rugged::Remote instance''), s))
   \<and> (remote_name r' = None
      \<longrightarrow> rb_git_remote_collection_delete lg self (Remote r') s =
          (Inl (TypeError ''Expecting a String or Rugged::Remote instance''), s))"
proof (intro conjI impI)
  assume "rugged_owner self = Repository repo \<and> CHR 0x00 \<notin> set name \<and>
    git_remote_delete lg repo name (world s) = (e, w)"
  then show "rb_git_remote_collection_delete lg self (T_STRING name) s =
          ((if e < 0 then Inl (GitError e) else Inr Qnil),
           \<lparr>world = w, trace = trace s @ [Call_remote_delete repo name]\<rparr>)"
    by (simp add: delete_string StringValueCStr_def call_remote_delete_def
        rugged_exception_check_def)
next
  assume "remote_name r = Some name"
  then show "rb_git_remote_collection_delete lg self (Remote r) s =
          rb_git_remote_collection_delete lg self (T_STRING name) s"
    by (rule delete_named_remote)
next
  assume "(\<forall>name. v \<noteq> T_STRING name) \<and> (\<forall>r. v = Remote r \<longrightarrow> remote_name r = None)"
  then show "rb_git_remote_collection_delete lg self v s =
          (Inl (TypeError ''Expecting a String or Rugged::Remote instance''), s)"
    by (simp add: delete_bad_argument)
next
  assume "remote_name r' = None"
  then show "rb_git_remote_collection_delete lg self (Remote r') s =
          (Inl (TypeError ''Expecting a String or Rugged::Remote instance''), s)"
    by (simp add: delete_bad_argument)
qed

theorem delete_accepts_name_or_named_remote_witness:
  "rb_git_remote_collection_delete git (RemoteCollection (Repository 7)) (T_STRING ''a'')
     (fresh store_ab) =
     (Inr Qnil, \<lparr>world = \<lparr>remotes = [(''b'', ''u2'')], corrupt = False\<rparr>,
                 trace = [Call_remote_delete 7 ''a'']\<rparr>)
   \<and> rb_git_remote_collection_delete git (RemoteCollection (Repository 7))
       (Remote (named_remote ''a'' ''u1'')) (fresh store_ab) =
     (Inr Qnil, \<lparr>world = \<lparr>remotes = [(''b'', ''u2'')], corrupt = False\<rparr>,
                 trace = [Call_remote_delete 7 ''a'']\<rparr>)
   \<and> rb_git_remote_collection_delete git (RemoteCollection (Repository 7)) (Object 5)
       (fresh store_ab) =
     (Inl (TypeError ''Expecting a String or Rugged::Remote instance''), fresh store_ab)
   \<and> rb_git_remote_collection_delete git (RemoteCollection (Repository 7))
       (Remote (anonymous_remote ''u9'')) (fresh store_ab) =
     (Inl (TypeError ''Expecting a String or Rugged::Remote instance''), fresh store_ab)"
  using delete_accepts_name_or_named_remote [where self = "RemoteCollection (Repository 7)"
      and repo = 7 and name = "''a''" and lg = git and s = "fresh store_ab" and e = 0
      and w = "\<lparr>remotes = [(''b'', ''u2'')], corrupt = False\<rparr>"
      and r = "named_remote ''a'' ''u1''" and v = "Object 5" and r' = "anonymous_remote ''u9''"]
  by (simp add: git_def ConfigStore_def fresh_def store_ab_def deleteRemote_def
      named_remote_def anonymous_remote_def)


text \<open>
  C10.  In \<open>delete\<close> the argument check comes before the repository check: on a
  collection whose repository is not live, an argument that is neither a String nor a
  remote with a name gives the TypeError and an unchanged state (no store call), not
  RepositoryUnavailable, which is what a String gets on the same collection.
\<close>

theorem delete_checks_argument_before_repository:
  "((\<forall>name. v \<noteq> T_STRING name) \<and> (\<forall>r. v = Remote r \<longrightarrow> remote_name r = None) \<and>
    (\<forall>repo. rugged_owner self \<noteq> Repository repo)
    \<longrightarrow> rb_git_remote_collection_delete lg self v s =
          (Inl (TypeError ''Expecting a String or Rugged::Remote instance''), s)
        \<and> fst (rb_git_remote_collection_delete lg self v s) \<noteq> Inl RepositoryUnavailable
        \<and> fst (rb_git_remote_collection_delete lg self (T_STRING name) s) =
            Inl RepositoryUnavailable)"
proof (intro impI)
  assume a: "(\<forall>name. v \<noteq> T_STRING name) \<and> (\<forall>r. v = Remote r \<longrightarrow> remote_name r = None) \<and>
    (\<forall>repo. rugged_owner self \<noteq> Repository repo)"
  then have "rb_git_remote_collection_delete lg self v s =
      (Inl (TypeError ''Expecting a String or Rugged::Remote instance''), s)"
    by (simp add: delete_bad_argument)
  moreover have "rugged_check_repo (rugged_owner self) = Inl RepositoryUnavailable"
    using a by (simp add: check_repo_not_live)
  ultimately show "rb_git_remote_collection_delete lg self v s =
          (Inl (TypeError ''Expecting a String or Rugged::Remote instance''), s)
        \<and> fst (rb_git_remote_collection_delete lg self v s) \<noteq> Inl RepositoryUnavailable
        \<and> fst (rb_git_remote_collection_delete lg self (T_STRING name) s) =
            Inl RepositoryUnavailable"
    by (simp add: delete_string)
qed

theorem delete_checks_argument_before_repository_witness:
  "rb_git_remote_collection_delete git (RemoteCollection Qnil) (Remote (anonymous_remote ''u9''))
     (fresh store_ab) =
     (Inl (TypeError ''Expecting a String or Rugged::Remote instance''), fresh store_ab)
   \<and> fst (rb_git_remote_collection_delete git (RemoteCollection Qnil) (T_STRING ''a'')
            (fresh store_ab)) = Inl RepositoryUnavailable"
  using delete_checks_argument_before_repository [where self = "RemoteCollection Qnil"
      and v = "Remote (anonymous_remote ''u9'')" and lg = git and s = "fresh store_ab"
      and name = "''a''"]
  by (simp add: anonymous_remote_def)


subsection \<open>Create\<close>

text \<open>
  A call of \<open>create\<close> or \<open>create_anonymous\<close> that passes the checks of the binding makes
  one call into libgit2 and surfaces its outcome.
\<close>

lemma create_anonymous_valid:
  assumes "rugged_owner self = Repository repo" and "valid_remote_url lg url"
    and "CHR 0x00 \<notin> set url"
    and "git_remote_create_anonymous lg repo url (world s) = ((e, r), w)"
  shows "rb_git_remote_collection_create_anonymous lg self (T_STRING url) s =
           ((if e < 0 then Inl (GitError e) else Inr (Remote r)),
            \<lparr>world = w, trace = trace s @ [Call_remote_create_anonymous repo url]\<rparr>)"
  using assms
  by (simp add: rb_git_remote_collection_create_anonymous_def rugged_validate_remote_url_def
      StringValueCStr_def call_remote_create_anonymous_def rugged_exception_check_def
      rugged_remote_new_def)

lemma create_valid:
  assumes "rugged_owner self = Repository repo" and "valid_remote_url lg url"
    and "CHR 0x00 \<notin> set name" and "CHR 0x00 \<notin> set url"
    and "git_remote_create lg repo name url (world s) = ((e, r), w)"
  shows "rb_git_remote_collection_create lg self (T_STRING name) (T_STRING url) s =
           ((if e < 0 then Inl (GitError e) else Inr (Remote r)),
            \<lparr>world = w, trace = trace s @ [Call_remote_create repo name url]\<rparr>)"
  using assms
  by (simp add: rb_git_remote_collection_create_def rugged_validate_remote_url_def
      StringValueCStr_def call_remote_create_def rugged_exception_check_def
      rugged_remote_new_def)

subsection \<open>The binding over the configuration store\<close>

text \<open>
  What the store answers decides the next three properties, so they are stated for
  \<open>ConfigStore\<close>, with any validity of names and URLs.  A remote that \<open>loadRemote\<close>
  returns has a name, so every remote an iteration yields has one.
\<close>

lemma ConfigStore_simps:
  "git_remote_list (ConfigStore vn vu) = listRemoteNames"
  "git_remote_load (ConfigStore vn vu) = loadRemote"
  "git_remote_create (ConfigStore vn vu) = createRemote vn vu"
  "git_remote_create_anonymous (ConfigStore vn vu) = createAnonymousRemote vu"
  "git_remote_delete (ConfigStore vn vu) = deleteRemote"
  "valid_remote_url (ConfigStore vn vu) = vu"
  by (simp_all add: ConfigStore_def)

lemma loadRemote_named:
  "loadRemote repo n w = ((0, r), w') \<Longrightarrow> remote_name r \<noteq> None"
  by (auto simp add: loadRemote_def named_remote_def GIT_ERROR_def GIT_ENOTFOUND_def
      split: if_splits option.splits)

lemma each_loop_yields_named:
  "\<exists>evs. trace (snd (snd (each_loop (ConfigStore vn vu) blk rb repo ns e x s))) = trace s @ evs \<and>
         (\<forall>r. Yield (Remote r) \<in> set evs \<longrightarrow> remote_name r \<noteq> None)"
proof (induction ns arbitrary: e x s)
  case Nil
  show ?case by simp
next
  case (Cons n ns)
  show ?case
  proof (cases "x \<noteq> 0 \<or> e \<noteq> 0")
    case True
    then show ?thesis by (simp add: each_loop_stop)
  next
    case False
    obtain e' r w where l: "loadRemote repo n (world s) = ((e', r), w)"
      by (metis surj_pair)
    show ?thesis
    proof (cases "e' = 0")
      case True
      obtain x' w' where b: "blk (Remote r) w = (x', w')"
        by (metis surj_pair)
      from l True have nm: "remote_name r \<noteq> None"
        by (auto dest: loadRemote_named)
      obtain evs where
        "trace (snd (snd (each_loop (ConfigStore vn vu) blk rb repo ns 0 x'
            \<lparr>world = w', trace = trace s @ [Call_remote_load repo n, Yield (Remote r)]\<rparr>))) =
         (trace s @ [Call_remote_load repo n, Yield (Remote r)]) @ evs"
        and "\<forall>r. Yield (Remote r) \<in> set evs \<longrightarrow> remote_name r \<noteq> None"
        using Cons.IH [of 0 x' "\<lparr>world = w', trace = trace s @ [Call_remote_load repo n, Yield (Remote r)]\<rparr>"]
        by auto
      then show ?thesis
        using False l True b nm
        by (simp add: ConfigStore_simps call_remote_load_def rb_protect_yield_def
            rugged_remote_new_def)
    next
      case nz: False
      then show ?thesis
        using False l
        by (simp add: ConfigStore_simps call_remote_load_def each_loop_stop)
    qed
  qed
qed

lemma each_name_loop_yields_strings:
  "\<exists>evs. trace (snd (each_name_loop blk ns x s)) = trace s @ evs \<and>
         (\<forall>r. Yield (Remote r) \<notin> set evs)"
proof (induction ns arbitrary: x s)
  case Nil
  show ?case by simp
next
  case (Cons n ns)
  show ?case
  proof (cases "x \<noteq> 0")
    case True
    then show ?thesis by (simp add: each_name_loop_stop)
  next
    case False
    obtain x' w' where b: "blk (T_STRING n) (world s) = (x', w')"
      by (metis surj_pair)
    obtain evs where
      "trace (snd (each_name_loop blk ns x' \<lparr>world = w', trace = trace s @ [Yield (T_STRING n)]\<rparr>)) =
       (trace s @ [Yield (T_STRING n)]) @ evs"
      and "\<forall>r. Yield (Remote r) \<notin> set evs"
      using Cons.IH [of x' "\<lparr>world = w', trace = trace s @ [Yield (T_STRING n)]\<rparr>"]
      by auto
    then show ?thesis
      using False b
      by (simp add: rb_protect_yield_def rb_str_new_utf8_def)
  qed
qed

lemma each_yields_named:
  "\<exists>evs. trace (snd (rb_git_remote_collection__each (ConfigStore vn vu) block self k s)) =
           trace s @ evs \<and>
         (\<forall>r. Yield (Remote r) \<in> set evs \<longrightarrow> remote_name r \<noteq> None)"
proof (cases block)
  case None
  then show ?thesis
    by (simp add: rb_git_remote_collection__each_def)
next
  case (Some blk)
  show ?thesis
  proof (cases "rugged_check_repo (rugged_owner self)")
    case (Inl ex)
    then show ?thesis
      using Some by (simp add: rb_git_remote_collection__each_def)
  next
    case (Inr repo)
    obtain e ns w where l: "listRemoteNames repo (world s) = ((e, ns), w)"
      by (metis surj_pair)
    let ?s1 = "\<lparr>world = w, trace = trace s @ [Call_remote_list repo]\<rparr>"
    show ?thesis
    proof (cases "e < 0")
      case True
      then show ?thesis
        using Some Inr l
        by (simp add: rb_git_remote_collection__each_def call_remote_list_def
            ConfigStore_simps rugged_exception_check_def)
    next
      case False
      show ?thesis
      proof (cases "k \<noteq> 0")
        case True
        obtain evs where
          "trace (snd (each_name_loop blk ns 0 ?s1)) = trace ?s1 @ evs"
          and "\<forall>r. Yield (Remote r) \<notin> set evs"
          using each_name_loop_yields_strings [of blk ns 0 ?s1] by auto
        then show ?thesis
          using Some Inr l False True
          by (cases "each_name_loop blk ns 0 ?s1")
             (auto simp add: rb_git_remote_collection__each_def call_remote_list_def
              ConfigStore_simps rugged_exception_check_def split: option.splits if_splits)
      next
        case k0: False
        obtain evs where
          "trace (snd (snd (each_loop (ConfigStore vn vu) blk (rugged_owner self) repo ns e 0 ?s1))) =
             trace ?s1 @ evs"
          and "\<forall>r. Yield (Remote r) \<in> set evs \<longrightarrow> remote_name r \<noteq> None"
          using each_loop_yields_named [of vn vu blk "rugged_owner self" repo ns e 0 ?s1] by auto
        then show ?thesis
          using Some Inr l False k0
          by (cases "each_loop (ConfigStore vn vu) blk (rugged_owner self) repo ns e 0 ?s1")
             (auto simp add: rb_git_remote_collection__each_def call_remote_list_def
              ConfigStore_simps rugged_exception_check_def split: option.splits if_splits)
      qed
    qed
  qed
qed

text \<open>
  C7.  \<open>create_anonymous\<close> of a valid URL returns a remote with that URL and no name,
  makes the one call \<open>git_remote_create_anonymous\<close> and leaves the store as it was;
  so the names the store lists afterwards are the names it listed before, and any
  iteration run afterwards, in either mode, with or without a block, yields only
  remotes that have a name.
\<close>

theorem create_anonymous_not_persisted:
  assumes "rugged_owner self = Repository repo" and "vu url" and "CHR 0x00 \<notin> set url"
  shows "rb_git_remote_collection_create_anonymous (ConfigStore vn vu) self (T_STRING url) s =
           (Inr (Remote (anonymous_remote url)),
            \<lparr>world = world s, trace = trace s @ [Call_remote_create_anonymous repo url]\<rparr>)
     \<and> remote_name (anonymous_remote url) = None
     \<and> remote_url (anonymous_remote url) = url
     \<and> git_remote_list (ConfigStore vn vu) repo
          (world (snd (rb_git_remote_collection_create_anonymous (ConfigStore vn vu) self
             (T_STRING url) s))) =
        git_remote_list (ConfigStore vn vu) repo (world s)
     \<and> (\<exists>evs. trace (snd (rb_git_remote_collection__each (ConfigStore vn vu) block self k
                   (snd (rb_git_remote_collection_create_anonymous (ConfigStore vn vu) self
                      (T_STRING url) s)))) =
                 (trace s @ [Call_remote_create_anonymous repo url]) @ evs \<and>
               (\<forall>r. Yield (Remote r) \<in> set evs \<longrightarrow> remote_name r \<noteq> None))"
proof -
  have c: "rb_git_remote_collection_create_anonymous (ConfigStore vn vu) self (T_STRING url) s =
           (Inr (Remote (anonymous_remote url)),
            \<lparr>world = world s, trace = trace s @ [Call_remote_create_anonymous repo url]\<rparr>)"
    using assms
      create_anonymous_valid [of self repo "ConfigStore vn vu" url s 0 "anonymous_remote url" "world s"]
    by (simp add: ConfigStore_simps createAnonymousRemote_def)
  have "\<exists>evs. trace (snd (rb_git_remote_collection__each (ConfigStore vn vu) block self k
                   \<lparr>world = world s, trace = trace s @ [Call_remote_create_anonymous repo url]\<rparr>)) =
                 (trace s @ [Call_remote_create_anonymous repo url]) @ evs \<and>
               (\<forall>r. Yield (Remote r) \<in> set evs \<longrightarrow> remote_name r \<noteq> None)"
    using each_yields_named [of vn vu block self k
        "\<lparr>world = world s, trace = trace s @ [Call_remote_create_anonymous repo url]\<rparr>"]
    by simp
  with c show ?thesis
    by (simp add: anonymous_remote_def)
qed

theorem create_anonymous_not_persisted_witness:
  "rb_git_remote_collection_create_anonymous git (RemoteCollection (Repository 7)) (T_STRING ''u9'')
     (fresh store_ab) =
     (Inr (Remote (anonymous_remote ''u9'')),
      \<lparr>world = store_ab, trace = [Call_remote_create_anonymous 7 ''u9'']\<rparr>)
   \<and> git_remote_list git 7
        (world (snd (rb_git_remote_collection_create_anonymous git (RemoteCollection (Repository 7))
           (T_STRING ''u9'') (fresh store_ab)))) = ((0, [''a'', ''b'']), store_ab)"
  using create_anonymous_not_persisted [where self = "RemoteCollection (Repository 7)"
      and repo = 7 and vu = non_empty and vn = non_empty and url = "''u9''" and s = "fresh store_ab"]
  by (simp add: git_def fresh_def non_empty_def ConfigStore_simps listRemoteNames_def store_ab_def)


text \<open>
  C8.  For a valid name and URL, on a readable store in which the name denotes no
  remote, \<open>create\<close> returns the remote of that name and URL, and \<open>remotes[name]\<close>
  run in the state \<open>create\<close> left returns a remote with that name whose fetch URL is
  that URL.
\<close>

theorem create_then_lookup:
  assumes "rugged_owner self = Repository repo"
    and "vn name" and "vu url" and "CHR 0x00 \<notin> set name" and "CHR 0x00 \<notin> set url"
    and "\<not> corrupt (world s)" and "name \<notin> fst ` set (remotes (world s))"
  shows "fst (rb_git_remote_collection_create (ConfigStore vn vu) self (T_STRING name) (T_STRING url) s) =
           Inr (Remote (named_remote name url))
     \<and> fst (rb_git_remote_collection_aref (ConfigStore vn vu) self (T_STRING name)
              (snd (rb_git_remote_collection_create (ConfigStore vn vu) self
                 (T_STRING name) (T_STRING url) s))) =
           Inr (Remote (named_remote name url))
     \<and> remote_name (named_remote name url) = Some name
     \<and> remote_url (named_remote name url) = url"
proof -
  let ?w = "(world s)\<lparr>remotes := remotes (world s) @ [(name, url)]\<rparr>"
  let ?s1 = "\<lparr>world = ?w, trace = trace s @ [Call_remote_create repo name url]\<rparr>"
  have c: "rb_git_remote_collection_create (ConfigStore vn vu) self (T_STRING name) (T_STRING url) s =
           (Inr (Remote (named_remote name url)), ?s1)"
    using assms
      create_valid [of self repo "ConfigStore vn vu" url name s 0 "named_remote name url" ?w]
    by (simp add: ConfigStore_simps createRemote_def)
  have "map_of (remotes (world s)) name = None"
    using assms(7) by (simp add: map_of_eq_None_iff)
  then have "loadRemote repo name ?w = ((0, named_remote name url), ?w)"
    using assms(6) by (simp add: loadRemote_def map_add_def)
  then have "rb_git_remote_collection_aref (ConfigStore vn vu) self (T_STRING name) ?s1 =
      (Inr (Remote (named_remote name url)),
       \<lparr>world = ?w, trace = trace ?s1 @ [Call_remote_load repo name]\<rparr>)"
    using assms(1,4)
      aref_valid [of self repo name "ConfigStore vn vu" ?s1 0 "named_remote name url" ?w]
    by (simp add: ConfigStore_simps GIT_ENOTFOUND_def)
  with c show ?thesis
    by (simp add: named_remote_def)
qed

theorem create_then_lookup_witness:
  "fst (rb_git_remote_collection_aref git (RemoteCollection (Repository 7)) (T_STRING ''c'')
          (snd (rb_git_remote_collection_create git (RemoteCollection (Repository 7))
             (T_STRING ''c'') (T_STRING ''u3'') (fresh store_ab)))) =
     Inr (Remote \<lparr>remote_name = Some ''c'', remote_url = ''u3'', remote_pushurl = None,
                  remote_refspecs = [''+refs/heads/*:refs/remotes/c/*'']\<rparr>)"
  using create_then_lookup [where self = "RemoteCollection (Repository 7)" and repo = 7
      and vn = non_empty and vu = non_empty and name = "''c''" and url = "''u3''"
      and s = "fresh store_ab"]
  by (simp add: git_def fresh_def non_empty_def store_ab_def named_remote_def default_refspec_def)


text \<open>
  C9.  \<open>create\<close> with a name that already denotes a remote (and a URL that passes the
  validation of the binding, on a readable store) fails with the store's
  \<open>GIT_EEXISTS\<close>, the AlreadyExists error, and leaves the store as it was: a lookup of
  the name afterwards still returns the first URL.
\<close>

theorem create_duplicate_rejected:
  assumes "rugged_owner self = Repository repo"
    and "vu url" and "CHR 0x00 \<notin> set name" and "CHR 0x00 \<notin> set url"
    and "\<not> corrupt (world s)" and "map_of (remotes (world s)) name = Some url1"
  shows "rb_git_remote_collection_create (ConfigStore vn vu) self (T_STRING name) (T_STRING url) s =
           (Inl (GitError GIT_EEXISTS),
            \<lparr>world = world s, trace = trace s @ [Call_remote_create repo name url]\<rparr>)
     \<and> fst (rb_git_remote_collection_aref (ConfigStore vn vu) self (T_STRING name)
              (snd (rb_git_remote_collection_create (ConfigStore vn vu) self
                 (T_STRING name) (T_STRING url) s))) =
           Inr (Remote (named_remote name url1))"
proof -
  let ?s1 = "\<lparr>world = world s, trace = trace s @ [Call_remote_create repo name url]\<rparr>"
  have "name \<in> fst ` set (remotes (world s))"
    using assms(6) by (metis map_of_eq_None_iff option.distinct(1))
  then have c: "rb_git_remote_collection_create (ConfigStore vn vu) self (T_STRING name) (T_STRING url) s =
           (Inl (GitError GIT_EEXISTS), ?s1)"
    using assms(1-5)
      create_valid [of self repo "ConfigStore vn vu" url name s GIT_EEXISTS no_remote "world s"]
    by (simp add: ConfigStore_simps createRemote_def GIT_EEXISTS_def)
  have "loadRemote repo name (world s) = ((0, named_remote name url1), world s)"
    using assms(5,6) by (simp add: loadRemote_def)
  then have "rb_git_remote_collection_aref (ConfigStore vn vu) self (T_STRING name) ?s1 =
      (Inr (Remote (named_remote name url1)),
       \<lparr>world = world s, trace = trace ?s1 @ [Call_remote_load repo name]\<rparr>)"
    using assms(1,3)
      aref_valid [of self repo name "ConfigStore vn vu" ?s1 0 "named_remote name url1" "world s"]
    by (simp add: ConfigStore_simps GIT_ENOTFOUND_def)
  with c show ?thesis
    by simp
qed

theorem create_duplicate_rejected_witness:
  "rb_git_remote_collection_create git (RemoteCollection (Repository 7))
     (T_STRING ''origin'') (T_STRING ''u2'')
     (snd (rb_git_remote_collection_create git (RemoteCollection (Repository 7))
        (T_STRING ''origin'') (T_STRING ''u1'') (fresh \<lparr>remotes = [], corrupt = False\<rparr>))) =
   (Inl (GitError GIT_EEXISTS),
    \<lparr>world = \<lparr>remotes = [(''origin'', ''u1'')], corrupt = False\<rparr>,
     trace = [Call_remote_create 7 ''origin'' ''u1'', Call_remote_create 7 ''origin'' ''u2'']\<rparr>)"
proof -
  have s1: "snd (rb_git_remote_collection_create git (RemoteCollection (Repository 7))
        (T_STRING ''origin'') (T_STRING ''u1'') (fresh \<lparr>remotes = [], corrupt = False\<rparr>)) =
      \<lparr>world = \<lparr>remotes = [(''origin'', ''u1'')], corrupt = False\<rparr>,
       trace = [Call_remote_create 7 ''origin'' ''u1'']\<rparr>"
    by (simp add: git_def fresh_def non_empty_def rb_git_remote_collection_create_def
        rugged_validate_remote_url_def StringValueCStr_def call_remote_create_def
        rugged_exception_check_def ConfigStore_simps createRemote_def)
  show ?thesis
    unfolding s1
    using create_duplicate_rejected [where self = "RemoteCollection (Repository 7)" and repo = 7
      and vn = non_empty and vu = non_empty and name = "''origin''" and url = "''u2''"
      and ?url1.0 = "''u1''"
      and s = "\<lparr>world = \<lparr>remotes = [(''origin'', ''u1'')], corrupt = False\<rparr>,
                 trace = [Call_remote_create 7 ''origin'' ''u1'']\<rparr>"]
    by (simp add: git_def non_empty_def)
qed

end
